theory Spec2Isabelle
  imports Complex_Main
begin

section \<open>Python values and exceptions\<close>

text \<open>
  The exceptions that the modelled methods can raise. \<open>ExternalError\<close> stands for
  whatever the DNest4 library raises while it samples or post-processes.
\<close>

datatype error =
  AttributeError | TypeError | IndexError | KeyError | ValueError | ExternalError string

text \<open>
  A NumPy \<open>float64\<close> where its special values matter (the value of a user-supplied
  log-likelihood, the entries of the Bayes factor matrix): a finite number or one of the
  three special values.
\<close>

datatype float64 = Finite real | PosInf | NegInf | NaN

text \<open>
  The range of the format. A result of magnitude \<open>2^1024\<close> or more overflows to an
  infinity and one of magnitude \<open>2^-1075\<close> or less underflows to zero; between the
  two the value is kept as it is: the rounding to 53 bits, the lost precision of the
  denormals and the sign of a zero are not modelled.
\<close>

definition float64_of_real :: "real \<Rightarrow> float64" where
  "float64_of_real r =
     (if 2 ^ 1024 \<le> r then PosInf
      else if r \<le> - (2 ^ 1024) then NegInf
      else if \<bar>r\<bar> \<le> 1 / 2 ^ 1075 then Finite 0
      else Finite r)"

text \<open>\<open>np.exp\<close> of a finite number; an overflow only warns.\<close>

definition np_exp :: "real \<Rightarrow> float64" where
  "np_exp x = float64_of_real (exp x)"

text \<open>The product of two floats, with the special values of IEEE 754.\<close>

fun float64_mult :: "float64 \<Rightarrow> float64 \<Rightarrow> float64" where
  "float64_mult NaN y = NaN"
| "float64_mult x NaN = NaN"
| "float64_mult (Finite x) (Finite y) = float64_of_real (x * y)"
| "float64_mult (Finite x) PosInf = (if x = 0 then NaN else if 0 < x then PosInf else NegInf)"
| "float64_mult (Finite x) NegInf = (if x = 0 then NaN else if 0 < x then NegInf else PosInf)"
| "float64_mult PosInf (Finite y) = (if y = 0 then NaN else if 0 < y then PosInf else NegInf)"
| "float64_mult NegInf (Finite y) = (if y = 0 then NaN else if 0 < y then NegInf else PosInf)"
| "float64_mult PosInf PosInf = PosInf"
| "float64_mult PosInf NegInf = NegInf"
| "float64_mult NegInf PosInf = NegInf"
| "float64_mult NegInf NegInf = PosInf"

text \<open>
  An instance attribute that is created only by a later method call. Reading it while
  it is \<open>Missing\<close> raises \<open>AttributeError\<close>; an attribute that \<open>__init__\<close> sets to
  Python's \<open>None\<close> is an \<open>option\<close> instead, and reading it never raises.
\<close>

datatype 'a attribute = Missing | Bound 'a

fun getattr :: "'a attribute \<Rightarrow> error + 'a" where
  "getattr Missing = Inl AttributeError"
| "getattr (Bound v) = Inr v"

text \<open>Python's \<open>xs[-1]\<close>: the last element, \<open>IndexError\<close> on an empty sequence.\<close>

fun py_last :: "'a list \<Rightarrow> error + 'a" where
  "py_last [] = Inl IndexError"
| "py_last (x # xs) = Inr (last (x # xs))"

text \<open>Python's \<open>%\<close> on floats: the result has the sign of the divisor.\<close>

definition py_mod :: "real \<Rightarrow> real \<Rightarrow> real" where
  "py_mod x y = x - y * of_int \<lfloor>x / y\<rfloor>"

text \<open>
  Modelled from the spec: \<open>dnest4.wrap\<close>, a function of the external DNest4 library and
  not part of the sources. The spec describes it as modular wrap-around of a value into
  the interval from \<open>a\<close> to \<open>b\<close> (not clamping), so that a value exceeding a bound
  re-enters from the opposite side. Nothing is said about \<open>b \<le> a\<close>.
\<close>

definition wrap :: "real \<Rightarrow> real \<Rightarrow> real \<Rightarrow> real" where
  "wrap x a b = py_mod (x - a) (b - a) + a"

section \<open>The model object handed to DNest4 (\<open>_DNest4Model\<close>)\<close>

text \<open>
  The fields \<open>_log_likelihood\<close>, \<open>_widths\<close>, \<open>_centers\<close> and \<open>_n_dim\<close>. The field
  \<open>_from_prior\<close> is a closure over random draws that no method below inspects; it is
  left out.
\<close>

record DNest4Model =
  model_log_likelihood :: "real list \<Rightarrow> float64"
  model_widths :: "real list"
  model_centers :: "real list"
  model_n_dim :: nat

definition DNest4Model_init ::
  "(real list \<Rightarrow> float64) \<Rightarrow> real list \<Rightarrow> real list \<Rightarrow> DNest4Model" where
  "DNest4Model_init log_likelihood_func widths centers =
     \<lparr>model_log_likelihood = log_likelihood_func,
      model_widths = widths,
      model_centers = centers,
      model_n_dim = length widths\<rparr>"

definition log_likelihood :: "DNest4Model \<Rightarrow> real list \<Rightarrow> float64" where
  "log_likelihood self coords = model_log_likelihood self coords"

text \<open>
  \<open>perturb\<close> draws two random numbers; they are arguments here: \<open>idx\<close> is what
  \<open>np.random.randint(self._n_dim)\<close> returned (below \<open>_n_dim\<close>; the call raises
  \<open>ValueError\<close> when \<open>_n_dim\<close> is 0) and \<open>u\<close> is what \<open>np.random.uniform\<close> returned.
  The coordinate array is mutated in place, so the array as the call leaves it is
  returned next to the result, also when an exception is raised half-way.
\<close>

definition perturb ::
  "DNest4Model \<Rightarrow> nat \<Rightarrow> real \<Rightarrow> real list \<Rightarrow> (error + real) \<times> real list" where
  "perturb self idx u coords =
     (if model_n_dim self = 0 then (Inl ValueError, coords)
      else if length coords \<le> idx \<or> length (model_widths self) \<le> idx
      then (Inl IndexError, coords)
      else
        let coords1 = coords[idx := coords ! idx + model_widths self ! idx * (u - 0.5)];
            cw = model_widths self ! idx
        in if length (model_centers self) \<le> idx then (Inl IndexError, coords1)
           else
             let cc = model_centers self ! idx;
                 coords2 =
                   coords1[idx := wrap (coords1 ! idx) (cc - 0.5 * cw) (cc + 0.5 * cw)]
             in (Inr 0.0, coords2))"

section \<open>The sampler object (\<open>DNest4NestedSampling\<close>)\<close>

text \<open>
  A sampled parameter: its name and, the prior's random draws made explicit, the array
  that \<open>rvs(10000)\<close> returned when the constructor asked for it.
\<close>

record sampled_parameter =
  name :: string
  rvs10000 :: "real list"

text \<open>
  What one run of the external DNest4 sampler delivers: the statistics \<open>log_Z\<close> and
  \<open>H\<close> of \<open>postprocess(resample=1)\<close> and the backend's \<open>posterior_samples\<close>,
  \<open>samples\<close>, \<open>weights\<close> and \<open>sample_info\<close> (of the last, the \<open>log_likelihood\<close>
  column). A run that raises delivers an exception instead.
\<close>

record dnest4_run =
  log_Z :: real
  H :: real
  posterior_samples :: "real list list"
  backend_samples :: "real list list list"
  backend_weights :: "real list list"
  backend_sample_info :: "real list list"

text \<open>
  The instance attributes. Public ones keep their names; a private \<open>_x\<close> is \<open>ns_x\<close>.
  \<open>__init__\<close> creates the attributes up to \<open>ns_dnest4_model\<close>; those after it exist
  only once \<open>run\<close> or \<open>posteriors\<close> has assigned them. The keyword arguments handed
  through to DNest4 and the generator \<open>_output\<close> are left out: the outcome of the
  external run is an argument of \<open>run\<close>.
\<close>

record DNest4NestedSampling =
  sampled_parameters :: "sampled_parameter list"
  loglikelihood :: "real list \<Rightarrow> float64"
  population_size :: int
  dnest4_backend :: string
  n_diffusive_levels :: int
  ns_n_dims :: nat
  ns_log_evidence :: "real option"
  ns_information :: "real option"
  ns_post_eval :: bool
  ns_widths :: "real list"
  ns_centers :: "real list"
  ns_dnest4_model :: DNest4Model
  ns_logZ_err :: "real attribute"
  ns_evidence_error :: "real attribute"
  ns_evidence :: "real attribute"
  ns_samples :: "real list list attribute"
  ns_last_live_sample :: "real list list attribute"
  ns_last_live_sample_weights :: "real list attribute"
  ns_last_live_sample_info :: "real list attribute"
  ns_posteriors :: "(string \<rightharpoonup> real list \<times> real list) attribute"

text \<open>
  The constructor's loop over the parameters: the width and the center of each prior,
  estimated from its draws. \<open>min\<close> and \<open>max\<close> of an empty array raise \<open>ValueError\<close>.
\<close>

fun prior_estimates ::
  "sampled_parameter list \<Rightarrow> real list \<Rightarrow> real list \<Rightarrow> error + real list \<times> real list" where
  "prior_estimates [] widths centers = Inr (widths, centers)"
| "prior_estimates (sampled_parameter # rest) widths centers =
     (case rvs10000 sampled_parameter of
        [] \<Rightarrow> Inl ValueError
      | r # rv \<Rightarrow>
          let low = fold min rv r;
              high = fold max rv r;
              width = high - low;
              center = (high + low) / 2.0
          in prior_estimates rest (widths @ [width]) (centers @ [center]))"

text \<open>
  \<open>__init__\<close>. The defaults of the signature are written by the caller:
  \<open>population_size=None\<close>, \<open>n_diffusive_levels=20\<close>, \<open>dnest4_backend="memory"\<close>.
\<close>

definition DNest4NestedSampling_init ::
  "sampled_parameter list \<Rightarrow> (real list \<Rightarrow> float64) \<Rightarrow> int option \<Rightarrow> int \<Rightarrow> string
     \<Rightarrow> error + DNest4NestedSampling" where
  "DNest4NestedSampling_init sampled_params loglike pop_size n_levels backend =
     (let n_dims = length sampled_params;
          pop = (case pop_size of None \<Rightarrow> 25 * int n_dims | Some p \<Rightarrow> p)
      in case prior_estimates sampled_params [] [] of
           Inl e \<Rightarrow> Inl e
         | Inr (widths, centers) \<Rightarrow>
             Inr \<lparr>sampled_parameters = sampled_params,
                  loglikelihood = loglike,
                  population_size = pop,
                  dnest4_backend = backend,
                  n_diffusive_levels = n_levels,
                  ns_n_dims = n_dims,
                  ns_log_evidence = None,
                  ns_information = None,
                  ns_post_eval = False,
                  ns_widths = widths,
                  ns_centers = centers,
                  ns_dnest4_model = DNest4Model_init loglike widths centers,
                  ns_logZ_err = Missing,
                  ns_evidence_error = Missing,
                  ns_evidence = Missing,
                  ns_samples = Missing,
                  ns_last_live_sample = Missing,
                  ns_last_live_sample_weights = Missing,
                  ns_last_live_sample_info = Missing,
                  ns_posteriors = Missing\<rparr>)"

subsection \<open>The properties and their setters\<close>

definition evidence :: "DNest4NestedSampling \<Rightarrow> error + real" where
  "evidence self = getattr (ns_evidence self)"

definition evidence_error :: "DNest4NestedSampling \<Rightarrow> error + real" where
  "evidence_error self = getattr (ns_evidence_error self)"

definition log_evidence :: "DNest4NestedSampling \<Rightarrow> error + real option" where
  "log_evidence self = Inr (ns_log_evidence self)"

definition log_evidence_error :: "DNest4NestedSampling \<Rightarrow> error + real" where
  "log_evidence_error self = getattr (ns_logZ_err self)"

definition information :: "DNest4NestedSampling \<Rightarrow> error + real option" where
  "information self = Inr (ns_information self)"

text \<open>
  A setter returns the warnings it emits and the object as it leaves it. The value is
  of any type: Python does not look at it.
\<close>

definition evidence_setter ::
  "DNest4NestedSampling \<Rightarrow> 'v \<Rightarrow> string list \<times> DNest4NestedSampling" where
  "evidence_setter self value = ([''evidence is not settable''], self)"

definition evidence_error_setter ::
  "DNest4NestedSampling \<Rightarrow> 'v \<Rightarrow> string list \<times> DNest4NestedSampling" where
  "evidence_error_setter self value = ([''evidence_error is not settable''], self)"

definition log_evidence_setter ::
  "DNest4NestedSampling \<Rightarrow> 'v \<Rightarrow> string list \<times> DNest4NestedSampling" where
  "log_evidence_setter self value = ([''log_evidence is not settable''], self)"

definition log_evidence_error_setter ::
  "DNest4NestedSampling \<Rightarrow> 'v \<Rightarrow> string list \<times> DNest4NestedSampling" where
  "log_evidence_error_setter self value = ([''log_evidence_error is not settable''], self)"

definition information_setter ::
  "DNest4NestedSampling \<Rightarrow> 'v \<Rightarrow> string list \<times> DNest4NestedSampling" where
  "information_setter self value = ([''information is not settable''], self)"

subsection \<open>\<open>run\<close>\<close>

text \<open>
  \<open>ext\<close> is the outcome of the external sampling and post-processing. The results are
  assigned in the order of the source, and an exception leaves the object with the
  assignments made before it. Progress printing is not modelled. The result is the pair
  \<open>(self.log_evidence, self.log_evidence_error)\<close>.
\<close>

definition run ::
  "error + dnest4_run \<Rightarrow> DNest4NestedSampling
     \<Rightarrow> (error + real option \<times> real) \<times> DNest4NestedSampling" where
  "run ext self =
     (case ext of
        Inl e \<Rightarrow> (Inl e, self)
      | Inr stats \<Rightarrow>
          let self1 = self\<lparr>ns_log_evidence := Some (log_Z stats)\<rparr>;
              self2 = self1\<lparr>ns_information := Some (H stats)\<rparr>;
              logZ_err = sqrt (H stats / real_of_int (population_size self2));
              self3 = self2\<lparr>ns_logZ_err := Bound logZ_err\<rparr>;
              ev_err = exp logZ_err;
              self4 = self3\<lparr>ns_evidence_error := Bound ev_err\<rparr>;
              self5 = self4\<lparr>ns_evidence := Bound (exp (log_Z stats))\<rparr>;
              self6 = self5\<lparr>ns_samples := Bound (posterior_samples stats)\<rparr>
          in case py_last (backend_samples stats) of
               Inl e \<Rightarrow> (Inl e, self6)
             | Inr last_sample \<Rightarrow>
                 (case py_last (backend_weights stats) of
                    Inl e \<Rightarrow> (Inl e, self6)
                  | Inr last_weights \<Rightarrow>
                      let self7 = self6\<lparr>ns_last_live_sample := Bound last_sample,
                                        ns_last_live_sample_weights := Bound last_weights\<rparr>
                      in case py_last (backend_sample_info stats) of
                           Inl e \<Rightarrow> (Inl e, self7)
                         | Inr last_info \<Rightarrow>
                             let self8 = self7\<lparr>ns_last_live_sample_info := Bound last_info\<rparr>
                             in case log_evidence self8 of
                                  Inl e \<Rightarrow> (Inl e, self8)
                                | Inr logZ \<Rightarrow>
                                    (case log_evidence_error self8 of
                                       Inl e \<Rightarrow> (Inl e, self8)
                                     | Inr err \<Rightarrow> (Inr (logZ, err), self8))))"

subsection \<open>\<open>posteriors\<close>\<close>

text \<open>
  \<open>samples.shape[1]\<close> of the array that \<open>np.array\<close> builds from the posterior
  samples: without a row the array is one-dimensional and the index raises.
\<close>

fun shape1 :: "real list list \<Rightarrow> error + nat" where
  "shape1 [] = Inl IndexError"
| "shape1 (row # rows) = Inr (length row)"

text \<open>The column \<open>samples[:,ii]\<close>.\<close>

definition column :: "real list list \<Rightarrow> nat \<Rightarrow> real list" where
  "column samples ii = map (\<lambda>row. row ! ii) samples"

text \<open>The bin centers \<open>(edge[:-1] + edge[1:])/2.\<close>\<close>

definition bin_centers :: "real list \<Rightarrow> real list" where
  "bin_centers edge = map2 (\<lambda>l r. (l + r) / 2) (butlast edge) (tl edge)"

text \<open>Python's \<open>int\<close> of a float: truncation toward zero.\<close>

definition py_int :: "real \<Rightarrow> int" where
  "py_int x = (if 0 \<le> x then \<lfloor>x\<rfloor> else \<lceil>x\<rceil>)"

text \<open>
  The bin count \<open>2 * int(np.cbrt(len(samples)))\<close>. \<open>np_cbrt\<close> is NumPy's float cube
  root, an argument of the model: what it returns is near the exact cube root but need
  not be equal to it, not even at a perfect cube, and the truncation sees the
  difference.
\<close>

definition nbins_of :: "(real \<Rightarrow> real) \<Rightarrow> real list list \<Rightarrow> int" where
  "nbins_of np_cbrt samples = 2 * py_int (np_cbrt (real (length samples)))"

text \<open>
  The loop over the dimensions. \<open>histogram\<close> is NumPy's \<open>np.histogram\<close> with
  \<open>density=True\<close>, an argument of the model: from a column and a bin count it gives the
  bin weights and the bin edges, or raises. The dictionary is filled in place, so it is
  returned also when an iteration raises.
\<close>

fun posteriors_loop ::
  "(real list \<Rightarrow> int \<Rightarrow> error + real list \<times> real list) \<Rightarrow> sampled_parameter list
     \<Rightarrow> real list list \<Rightarrow> int \<Rightarrow> nat list \<Rightarrow> (string \<rightharpoonup> real list \<times> real list)
     \<Rightarrow> error option \<times> (string \<rightharpoonup> real list \<times> real list)" where
  "posteriors_loop histogram params samples nbins [] post = (None, post)"
| "posteriors_loop histogram params samples nbins (ii # rest) post =
     (case histogram (column samples ii) nbins of
        Inl e \<Rightarrow> (Some e, post)
      | Inr (marginal, edge) \<Rightarrow>
          let center = bin_centers edge
          in if length params \<le> ii then (Some IndexError, post)
             else posteriors_loop histogram params samples nbins rest
                    (post(name (params ! ii) \<mapsto> (marginal, center))))"

definition posteriors ::
  "(real \<Rightarrow> real) \<Rightarrow> (real list \<Rightarrow> int \<Rightarrow> error + real list \<times> real list)
     \<Rightarrow> DNest4NestedSampling
     \<Rightarrow> (error + (string \<rightharpoonup> real list \<times> real list)) \<times> DNest4NestedSampling" where
  "posteriors np_cbrt histogram self =
     (if \<not> ns_post_eval self then
        (case getattr (ns_samples self) of
           Inl e \<Rightarrow> (Inl e, self)
         | Inr samples \<Rightarrow>
             let nbins = nbins_of np_cbrt samples
             in case shape1 samples of
                  Inl e \<Rightarrow> (Inl e, self)
                | Inr nd \<Rightarrow>
                    (case posteriors_loop histogram (sampled_parameters self) samples nbins
                            [0..<nd] Map.empty of
                       (Some e, post) \<Rightarrow> (Inl e, self\<lparr>ns_posteriors := Bound post\<rparr>)
                     | (None, post) \<Rightarrow>
                         (Inr post, self\<lparr>ns_posteriors := Bound post, ns_post_eval := True\<rparr>)))
      else (getattr (ns_posteriors self), self))"

section \<open>The model selector (\<open>HypSelector\<close>)\<close>

text \<open>
  Of the selector's attributes, the list of model files (only its length is used), the
  samplers (\<open>None\<close> until \<open>gen_nested_samplers\<close> has built them) and the selection
  table. The samplers are those of \<open>ns_version='dnest4'\<close>. Assembling the model files
  and building the samplers go through HypBuilder, PySB and the file system and are not
  modelled.
\<close>

text \<open>Python's \<open>str\<close> of a natural number, for \<open>"model_{}".format(i)\<close>.\<close>

function str_nat :: "nat \<Rightarrow> string" where
  "str_nat n =
     (if n < 10 then [''0123456789'' ! n]
      else str_nat (n div 10) @ [''0123456789'' ! (n mod 10)])"
  by pat_completeness auto
termination
  by (relation "measure (\<lambda>n. n)") auto

declare str_nat.simps [simp del]

definition model_name :: "nat \<Rightarrow> string" where
  "model_name i = ''model_'' @ str_nat i"

text \<open>A row of the selection table, and the table with its index labels.\<close>

record selection_row =
  row_model :: string
  row_log_evidence :: "real option"
  row_log_evidence_error :: real

type_synonym selection_frame = "(nat \<times> selection_row) list"

record HypSelector =
  model_files :: "string list"
  nested_samplers :: "DNest4NestedSampling list option"
  selection :: "selection_frame option"

definition number_of_models :: "HypSelector \<Rightarrow> nat" where
  "number_of_models self = length (model_files self)"

subsection \<open>\<open>run_nested_sampling\<close>\<close>

text \<open>
  The first loop runs the samplers in turn; \<open>ext i\<close> is the outcome of the external
  DNest4 run of sampler \<open>i\<close>. There is no exception handler: the first run that raises
  ends the loop, and the samplers after it are as they were.
\<close>

fun run_samplers ::
  "(nat \<Rightarrow> error + dnest4_run) \<Rightarrow> nat \<Rightarrow> DNest4NestedSampling list
     \<Rightarrow> error option \<times> DNest4NestedSampling list" where
  "run_samplers ext i [] = (None, [])"
| "run_samplers ext i (ns # rest) =
     (case run (ext i) ns of
        (Inl e, ns') \<Rightarrow> (Some e, ns' # rest)
      | (Inr r, ns') \<Rightarrow>
          (case run_samplers ext (Suc i) rest of (res, rest') \<Rightarrow> (res, ns' # rest')))"

text \<open>The second loop collects one row per sampler.\<close>

fun build_frame :: "nat \<Rightarrow> DNest4NestedSampling list \<Rightarrow> error + selection_row list" where
  "build_frame i [] = Inr []"
| "build_frame i (ns # rest) =
     (case log_evidence ns of
        Inl e \<Rightarrow> Inl e
      | Inr logZ \<Rightarrow>
          (case log_evidence_error ns of
             Inl e \<Rightarrow> Inl e
           | Inr err \<Rightarrow>
               (case build_frame (Suc i) rest of
                  Inl e \<Rightarrow> Inl e
                | Inr frame \<Rightarrow>
                    Inr (\<lparr>row_model = model_name i, row_log_evidence = logZ,
                          row_log_evidence_error = err\<rparr> # frame))))"

text \<open>
  \<open>sort_values(by=['log_evidence'], ascending=False)\<close>: descending, missing values
  last. pandas leaves the order of equal keys open; here they keep their order.
\<close>

fun sorts_before :: "real option \<Rightarrow> real option \<Rightarrow> bool" where
  "sorts_before a None = True"
| "sorts_before None (Some b) = False"
| "sorts_before (Some a) (Some b) = (b \<le> a)"

fun insert_row :: "nat \<times> selection_row \<Rightarrow> selection_frame \<Rightarrow> selection_frame" where
  "insert_row r [] = [r]"
| "insert_row r (x # xs) =
     (if sorts_before (row_log_evidence (snd r)) (row_log_evidence (snd x))
      then r # x # xs else x # insert_row r xs)"

definition sort_values :: "selection_frame \<Rightarrow> selection_frame" where
  "sort_values frame = foldr insert_row frame []"

definition reset_index :: "selection_frame \<Rightarrow> selection_frame" where
  "reset_index frame = zip [0..<length frame] (map snd frame)"

text \<open>
  The result is the value returned (\<open>None\<close> after the warning, or the table), the
  warnings emitted and the selector as the call leaves it. A \<open>DataFrame\<close> built from
  no rows has no column to sort by: \<open>KeyError\<close>.
\<close>

definition run_nested_sampling ::
  "(nat \<Rightarrow> error + dnest4_run) \<Rightarrow> HypSelector
     \<Rightarrow> (error + selection_frame option) \<times> string list \<times> HypSelector" where
  "run_nested_sampling ext self =
     (case nested_samplers self of
        None \<Rightarrow>
          (Inr None,
           [''Unable to run. Must call the 'gen_nested_samplers' function first!''], self)
      | Some ns_samplers \<Rightarrow>
          (case run_samplers ext 0 ns_samplers of
             (Some e, samplers') \<Rightarrow> (Inl e, [], self\<lparr>nested_samplers := Some samplers'\<rparr>)
           | (None, samplers') \<Rightarrow>
               let self1 = self\<lparr>nested_samplers := Some samplers'\<rparr>
               in case build_frame 0 samplers' of
                    Inl e \<Rightarrow> (Inl e, [], self1)
                  | Inr frame \<Rightarrow>
                      if frame = [] then (Inl KeyError, [], self1)
                      else
                        let sel = sort_values (zip [0..<length frame] frame)
                        in (Inr (Some (reset_index sel)), [],
                            self1\<lparr>selection := Some sel\<rparr>)))"

subsection \<open>\<open>bayes_factors\<close>\<close>

text \<open>The table returned: \<open>pd.DataFrame(bayes_factors, index=mod_list, columns=mod_list)\<close>.\<close>

record bayes_frame =
  bf_index :: "string list"
  bf_columns :: "string list"
  bf_values :: "float64 list list"

text \<open>\<open>loge_i - loge_j\<close>: a \<open>None\<close> operand raises \<open>TypeError\<close>.\<close>

fun py_sub :: "real option \<Rightarrow> real option \<Rightarrow> error + real" where
  "py_sub (Some a) (Some b) = Inr (a - b)"
| "py_sub a b = Inl TypeError"

text \<open>The assignment \<open>m[r,c] = v\<close> to a two-dimensional array.\<close>

definition array_set ::
  "float64 list list \<Rightarrow> nat \<Rightarrow> nat \<Rightarrow> float64 \<Rightarrow> error + float64 list list" where
  "array_set m r c v =
     (if r < length m \<and> c < length (m ! r) then Inr (m[r := (m ! r)[c := v]])
      else Inl IndexError)"

text \<open>The inner loop \<open>for j,nsj in enumerate(self.nested_samplers)\<close>, from \<open>j\<close> on.\<close>

fun bayes_inner ::
  "real option \<Rightarrow> nat \<Rightarrow> nat \<Rightarrow> DNest4NestedSampling list \<Rightarrow> float64 list list
     \<Rightarrow> error + float64 list list" where
  "bayes_inner loge_i i j [] bayes = Inr bayes"
| "bayes_inner loge_i i j (nsj # rest) bayes =
     (case log_evidence nsj of
        Inl e \<Rightarrow> Inl e
      | Inr loge_j \<Rightarrow>
          if i \<noteq> j then
            (case py_sub loge_i loge_j of
               Inl e \<Rightarrow> Inl e
             | Inr d \<Rightarrow>
                 let bf = np_exp d
                 in case array_set bayes j i bf of
                      Inl e \<Rightarrow> Inl e
                    | Inr bayes' \<Rightarrow> bayes_inner loge_i i (Suc j) rest bayes')
          else bayes_inner loge_i i (Suc j) rest bayes)"

text \<open>The outer loop \<open>for i,nsi in enumerate(self.nested_samplers)\<close>, from \<open>i\<close> on.\<close>

fun bayes_outer ::
  "DNest4NestedSampling list \<Rightarrow> nat \<Rightarrow> DNest4NestedSampling list \<Rightarrow> float64 list list
     \<Rightarrow> error + float64 list list" where
  "bayes_outer samplers i [] bayes = Inr bayes"
| "bayes_outer samplers i (nsi # rest) bayes =
     (case log_evidence nsi of
        Inl e \<Rightarrow> Inl e
      | Inr loge_i \<Rightarrow>
          (case bayes_inner loge_i i 0 samplers bayes of
             Inl e \<Rightarrow> Inl e
           | Inr bayes' \<Rightarrow> bayes_outer samplers (Suc i) rest bayes'))"

text \<open>Iterating over \<open>self.nested_samplers\<close> while it is \<open>None\<close> raises \<open>TypeError\<close>.\<close>

definition bayes_factors :: "HypSelector \<Rightarrow> error + bayes_frame" where
  "bayes_factors self =
     (let n_models = number_of_models self;
          mod_list = map model_name [0..<n_models];
          ones = replicate n_models (replicate n_models (Finite 1))
      in case nested_samplers self of
           None \<Rightarrow> Inl TypeError
         | Some samplers \<Rightarrow>
             (case bayes_outer samplers 0 samplers ones of
                Inl e \<Rightarrow> Inl e
              | Inr bayes \<Rightarrow>
                  Inr \<lparr>bf_index = mod_list, bf_columns = mod_list, bf_values = bayes\<rparr>))"

section \<open>Example objects\<close>

text \<open>
  A parameter with prior draws between 0 and 2, a sampler over it with a population of
  four, and the outcome of one DNest4 run; the closed instances below are stated on
  them.
\<close>

definition example_parameter :: sampled_parameter where
  "example_parameter = \<lparr>name = ''x'', rvs10000 = [0, 2]\<rparr>"

definition example_run :: dnest4_run where
  "example_run =
     \<lparr>log_Z = - 3, H = 8,
      posterior_samples = [[1/2], [1], [3/2], [1]],
      backend_samples = [[[1/2], [1]], [[1], [3/2]]],
      backend_weights = [[1/2, 1/2], [1/4, 3/4]],
      backend_sample_info = [[- 2, - 1], [- 1, - 1/2]]\<rparr>"

definition example_sampler :: DNest4NestedSampling where
  "example_sampler =
     projr (DNest4NestedSampling_init [example_parameter] (\<lambda>c. Finite 0) (Some 4) 20 ''memory'')"


definition example_finished :: DNest4NestedSampling where
  "example_finished = snd (run (Inr example_run) example_sampler)"

text \<open>
  A second run outcome, a selector over two model files with a sampler for each, the
  external outcomes of a batch in which both runs succeed and of one in which the first
  run raises, and the selector after the successful batch.
\<close>

definition example_run2 :: dnest4_run where
  "example_run2 = example_run\<lparr>log_Z := - 5\<rparr>"

definition example_finished2 :: DNest4NestedSampling where
  "example_finished2 = snd (run (Inr example_run2) example_sampler)"

definition example_selector :: HypSelector where
  "example_selector =
     \<lparr>model_files = [''hb_models/model_0.py'', ''hb_models/model_1.py''],
      nested_samplers = Some [example_sampler, example_sampler],
      selection = None\<rparr>"

definition example_external :: "nat \<Rightarrow> error + dnest4_run" where
  "example_external i = (if i = 0 then Inr example_run else Inr example_run2)"

definition example_failing :: "nat \<Rightarrow> error + dnest4_run" where
  "example_failing i =
     (if i = 0 then Inl (ExternalError ''solver did not converge'') else Inr example_run2)"

definition example_selected :: HypSelector where
  "example_selected = snd (snd (run_nested_sampling example_external example_selector))"

text \<open>
  A run outcome whose log-evidence lies 800 below that of the first, and a selector
  whose two samplers have finished with the first and with this outcome.
\<close>

definition example_run3 :: dnest4_run where
  "example_run3 = example_run\<lparr>log_Z := - 803\<rparr>"

definition example_finished3 :: DNest4NestedSampling where
  "example_finished3 = snd (run (Inr example_run3) example_sampler)"

definition example_far_apart :: HypSelector where
  "example_far_apart =
     example_selector\<lparr>nested_samplers := Some [example_finished, example_finished3]\<rparr>"

section \<open>Properties of the perturbation\<close>

lemma py_mod_range:
  assumes "0 < y"
  shows "0 \<le> py_mod x y \<and> py_mod x y < y"
proof -
  define q :: real where "q = of_int \<lfloor>x / y\<rfloor>"
  have "q \<le> x / y" and "x / y < q + 1"
    unfolding q_def by linarith+
  with assms have "q * y \<le> x" and "x < (q + 1) * y"
    by (simp_all add: pos_le_divide_eq pos_divide_less_eq)
  moreover have "py_mod x y = x - y * q"
    by (simp add: py_mod_def q_def)
  ultimately show ?thesis
    by (simp add: algebra_simps)
qed

lemma wrap_range:
  assumes "a < b"
  shows "a \<le> wrap x a b \<and> wrap x a b < b"
  using py_mod_range [of "b - a" "x - a"] assms by (simp add: wrap_def)

lemma wrap_shift: "\<exists>k::int. wrap x a b = x - of_int k * (b - a)"
  by (rule exI [of _ "\<lfloor>(x - a) / (b - a)\<rfloor>"]) (simp add: wrap_def py_mod_def)

text \<open>
  C3: for every starting coordinate vector, an application of the perturbation leaves
  the coordinate of the chosen dimension within \<open>center - width/2\<close> and
  \<open>center + width/2\<close>, having moved the shifted value by a whole number of widths
  (wrap-around, not clamping), and returns the proposal-correction term 0.0. The model
  is one built by the constructor, the chosen index addresses the vector, and the
  chosen dimension has a positive width.
\<close>

theorem perturb_within_bounds:
  assumes "self = DNest4Model_init ll ws cs"
    and "idx < length ws" and "idx < length cs" and "idx < length coords"
    and "0 < ws ! idx"
  shows "fst (perturb self idx u coords) = Inr 0 \<and>
         cs ! idx - ws ! idx / 2 \<le> snd (perturb self idx u coords) ! idx \<and>
         snd (perturb self idx u coords) ! idx \<le> cs ! idx + ws ! idx / 2 \<and>
         (\<exists>k::int. snd (perturb self idx u coords) ! idx =
            coords ! idx + ws ! idx * (u - 0.5) - of_int k * ws ! idx)"
proof -
  define x where "x = coords ! idx + ws ! idx * (u - 0.5)"
  define a where "a = cs ! idx - 0.5 * ws ! idx"
  define b where "b = cs ! idx + 0.5 * ws ! idx"
  have "ws \<noteq> []"
    using assms(2) by auto
  then have res: "perturb self idx u coords = (Inr 0, coords[idx := wrap x a b])"
    using assms by (simp add: perturb_def DNest4Model_init_def Let_def x_def a_def b_def)
  have "a < b"
    using assms(5) by (simp add: a_def b_def)
  then have rng: "a \<le> wrap x a b \<and> wrap x a b < b"
    by (rule wrap_range)
  obtain k :: int where k: "wrap x a b = x - of_int k * (b - a)"
    using wrap_shift by blast
  have ba: "b - a = ws ! idx"
    by (simp add: a_def b_def)
  have nth: "snd (perturb self idx u coords) ! idx = wrap x a b"
    using assms(4) by (simp add: res)
  have "fst (perturb self idx u coords) = Inr 0"
    by (simp add: res)
  moreover have "cs ! idx - ws ! idx / 2 \<le> snd (perturb self idx u coords) ! idx"
    using rng by (simp add: nth a_def)
  moreover have "snd (perturb self idx u coords) ! idx \<le> cs ! idx + ws ! idx / 2"
    using rng by (simp add: nth b_def)
  moreover have "\<exists>k::int. snd (perturb self idx u coords) ! idx =
      coords ! idx + ws ! idx * (u - 0.5) - of_int k * ws ! idx"
    using k by (auto simp: nth ba x_def)
  ultimately show ?thesis
    by blast
qed

theorem perturb_within_bounds_witness:
  "(0::nat) < length [2::real] \<and> 0 < [2::real] ! 0 \<and>
   fst (perturb (DNest4Model_init (\<lambda>c. Finite 0) [2] [1]) 0 (3/4) [19/10]) = Inr 0 \<and>
   [1::real] ! 0 - [2] ! 0 / 2
     \<le> snd (perturb (DNest4Model_init (\<lambda>c. Finite 0) [2] [1]) 0 (3/4) [19/10]) ! 0 \<and>
   snd (perturb (DNest4Model_init (\<lambda>c. Finite 0) [2] [1]) 0 (3/4) [19/10]) ! 0
     \<le> [1::real] ! 0 + [2] ! 0 / 2"
  using perturb_within_bounds
    [of "DNest4Model_init (\<lambda>c. Finite 0) [2] [1]" "\<lambda>c. Finite 0" "[2]" "[1]" 0 "[19/10]" "3/4"]
  by simp

text \<open>
  C10: the perturbation mutates its argument in place and writes one position only,
  the chosen dimension: the array it leaves is the argument with position \<open>idx\<close>
  replaced, so it has the same length and every other coordinate is unchanged; and
  when the index addresses the vector, the widths and the centers, the value written
  there is the shifted coordinate wrapped into the bounds of that dimension. (The
  dimension is an argument of the model; how it is drawn is NumPy's business.)
\<close>

theorem perturb_mutates_one_coordinate:
  "(\<exists>v. snd (perturb self idx u coords) = coords[idx := v]) \<and>
   length (snd (perturb self idx u coords)) = length coords \<and>
   (\<forall>j. j \<noteq> idx \<longrightarrow> snd (perturb self idx u coords) ! j = coords ! j) \<and>
   (model_n_dim self \<noteq> 0 \<and> idx < length coords \<and> idx < length (model_widths self) \<and>
    idx < length (model_centers self) \<longrightarrow>
      perturb self idx u coords =
        (Inr 0,
         coords[idx := wrap (coords ! idx + model_widths self ! idx * (u - 0.5))
                  (model_centers self ! idx - 0.5 * model_widths self ! idx)
                  (model_centers self ! idx + 0.5 * model_widths self ! idx)]))"
proof -
  have ex: "\<exists>v. snd (perturb self idx u coords) = coords[idx := v]"
  proof (cases "fst (perturb self idx u coords)")
    case (Inl e)
    then show ?thesis
      by (auto simp: perturb_def Let_def split: if_splits intro: exI [of _ "coords ! idx"])
  next
    case (Inr r)
    then show ?thesis
      by (auto simp: perturb_def Let_def split: if_splits)
  qed
  then obtain v where v: "snd (perturb self idx u coords) = coords[idx := v]"
    by blast
  have frame: "(\<exists>v. snd (perturb self idx u coords) = coords[idx := v]) \<and>
      length (snd (perturb self idx u coords)) = length coords \<and>
      (\<forall>j. j \<noteq> idx \<longrightarrow> snd (perturb self idx u coords) ! j = coords ! j)"
    by (simp add: v) (metis list_update_overwrite)
  have written: "perturb self idx u coords =
        (Inr 0,
         coords[idx := wrap (coords ! idx + model_widths self ! idx * (u - 0.5))
                  (model_centers self ! idx - 0.5 * model_widths self ! idx)
                  (model_centers self ! idx + 0.5 * model_widths self ! idx)])"
    if "model_n_dim self \<noteq> 0" "idx < length coords" "idx < length (model_widths self)"
       "idx < length (model_centers self)"
    using that by (simp add: perturb_def Let_def)
  from frame written show ?thesis
    by blast
qed

theorem perturb_mutates_one_coordinate_witness:
  "perturb (DNest4Model_init (\<lambda>c. Finite 0) [2, 4] [1, 0]) 0 (3/4) [19/10, 5]
     = (Inr 0, [2/5, 5]) \<and>
   snd (perturb (DNest4Model_init (\<lambda>c. Finite 0) [2, 4] [1, 0]) 0 (3/4) [19/10, 5]) ! 1 = 5 \<and>
   length (snd (perturb (DNest4Model_init (\<lambda>c. Finite 0) [2, 4] [1, 0]) 0 (3/4) [19/10, 5])) = 2"
proof -
  have w: "wrap (12/5) 0 2 = 2/5"
    by (simp add: wrap_def py_mod_def)
  from perturb_mutates_one_coordinate
    [of "DNest4Model_init (\<lambda>c. Finite 0) [2, 4] [1, 0]" 0 "3/4" "[19/10, 5]"]
  show ?thesis
    by (simp add: DNest4Model_init_def w)
qed

section \<open>Properties of the log-likelihood wrapper\<close>

text \<open>
  C5 (as the code has it): for every coordinate vector the wrapper returns the value of
  the user-supplied log-likelihood function unchanged; a NaN is handed on as NaN, and
  nothing is mapped to negative infinity.
\<close>

theorem log_likelihood_passes_value_through:
  "log_likelihood (DNest4Model_init f ws cs) coords = f coords"
  by (simp add: log_likelihood_def DNest4Model_init_def)

theorem log_likelihood_nan_counterexample:
  "log_likelihood (DNest4Model_init (\<lambda>c. NaN) [2] [1]) [0] = NaN \<and>
   log_likelihood (DNest4Model_init (\<lambda>c. NaN) [2] [1]) [0] \<noteq> NegInf"
  by (simp add: log_likelihood_def DNest4Model_init_def)

section \<open>Properties of \<open>run\<close> and of the result properties\<close>

lemma run_returns:
  assumes "py_last (backend_samples st) = Inr a"
    and "py_last (backend_weights st) = Inr b"
    and "py_last (backend_sample_info st) = Inr c"
  shows "run (Inr st) self =
    (Inr (Some (log_Z st), sqrt (H st / real_of_int (population_size self))),
     self\<lparr>ns_log_evidence := Some (log_Z st),
          ns_information := Some (H st),
          ns_logZ_err := Bound (sqrt (H st / real_of_int (population_size self))),
          ns_evidence_error := Bound (exp (sqrt (H st / real_of_int (population_size self)))),
          ns_evidence := Bound (exp (log_Z st)),
          ns_samples := Bound (posterior_samples st),
          ns_last_live_sample := Bound a,
          ns_last_live_sample_weights := Bound b,
          ns_last_live_sample_info := Bound c\<rparr>)"
  using assms by (simp add: run_def Let_def log_evidence_def log_evidence_error_def)

lemma example_sampler_population: "population_size example_sampler = 4"
  by (simp add: example_sampler_def DNest4NestedSampling_init_def example_parameter_def)

lemma example_run_returns:
  "run (Inr example_run) self =
    (Inr (Some (- 3), sqrt (8 / real_of_int (population_size self))),
     self\<lparr>ns_log_evidence := Some (- 3),
          ns_information := Some 8,
          ns_logZ_err := Bound (sqrt (8 / real_of_int (population_size self))),
          ns_evidence_error := Bound (exp (sqrt (8 / real_of_int (population_size self)))),
          ns_evidence := Bound (exp (- 3)),
          ns_samples := Bound [[1/2], [1], [3/2], [1]],
          ns_last_live_sample := Bound [[1], [3/2]],
          ns_last_live_sample_weights := Bound [1/4, 3/4],
          ns_last_live_sample_info := Bound [- 1, - 1/2]\<rparr>)"
  using run_returns [of example_run "[[1], [3/2]]" "[1/4, 3/4]" "[- 1, - 1/2]" self]
  by (simp add: example_run_def)


text \<open>
  C1: after every completed \<open>run\<close> the stored results satisfy
  \<open>log_evidence_error = sqrt(information / population_size)\<close> and
  \<open>evidence_error = exp(log_evidence_error)\<close>; the second component of the value
  returned is the same error estimate. (Floats are idealised as reals.)
\<close>

theorem run_error_estimates:
  assumes "run ext self = (Inr r, self')"
  shows "\<exists>h. information self' = Inr (Some h) \<and>
           log_evidence_error self' = Inr (sqrt (h / real_of_int (population_size self'))) \<and>
           evidence_error self' = Inr (exp (sqrt (h / real_of_int (population_size self')))) \<and>
           snd r = sqrt (h / real_of_int (population_size self'))"
proof (cases ext)
  case (Inl e)
  with assms show ?thesis
    by (simp add: run_def)
next
  case (Inr st)
  with assms obtain a b c where
    "py_last (backend_samples st) = Inr a" "py_last (backend_weights st) = Inr b"
    "py_last (backend_sample_info st) = Inr c"
    by (auto simp: run_def Let_def split: sum.splits)
  from run_returns [OF this, of self] assms Inr show ?thesis
    by (auto simp: information_def log_evidence_error_def evidence_error_def)
qed

theorem run_error_estimates_witness:
  "fst (run (Inr example_run) example_sampler) = Inr (Some (- 3), sqrt (8 / 4)) \<and>
   log_evidence_error (snd (run (Inr example_run) example_sampler)) = Inr (sqrt (8 / 4)) \<and>
   evidence_error (snd (run (Inr example_run) example_sampler)) = Inr (exp (sqrt (8 / 4)))"
proof -
  let ?s = "snd (run (Inr example_run) example_sampler)"
  have r: "run (Inr example_run) example_sampler = (Inr (Some (- 3), sqrt (8 / 4)), ?s)"
    by (simp add: example_run_returns example_sampler_population)
  have f: "fst (run (Inr example_run) example_sampler) = Inr (Some (- 3), sqrt (8 / 4))"
    by (simp add: example_run_returns example_sampler_population)
  have p: "population_size ?s = 4"
    by (simp add: example_run_returns example_sampler_population)
  have i: "information ?s = Inr (Some 8)"
    by (simp add: example_run_returns information_def)
  from run_error_estimates [OF r] obtain h where
    h: "information ?s = Inr (Some h)"
       "log_evidence_error ?s = Inr (sqrt (h / real_of_int (population_size ?s)))"
       "evidence_error ?s = Inr (exp (sqrt (h / real_of_int (population_size ?s))))"
    by blast
  from h(1) i have "h = 8"
    by simp
  with h(2,3) p f show ?thesis
    by simp
qed

lemma example_sampler_init:
  "DNest4NestedSampling_init [example_parameter] (\<lambda>c. Finite 0) (Some 4) 20 ''memory''
     = Inr example_sampler"
  by (simp add: example_sampler_def DNest4NestedSampling_init_def example_parameter_def)

lemma init_attributes:
  assumes "DNest4NestedSampling_init sps ll pop n_levels backend = Inr self"
  shows "ns_log_evidence self = None" and "ns_information self = None"
    and "ns_evidence self = Missing" and "ns_evidence_error self = Missing"
    and "ns_logZ_err self = Missing" and "ns_samples self = Missing"
    and "\<not> ns_post_eval self"
  using assms
  by (auto simp: DNest4NestedSampling_init_def Let_def split: sum.splits)

text \<open>
  C7 (as the code has it): on an object fresh from the constructor, before any run,
  \<open>log_evidence\<close> and \<open>information\<close> return the placeholder \<open>None\<close> without
  raising, while \<open>evidence\<close>, \<open>evidence_error\<close>, \<open>log_evidence_error\<close> and
  \<open>posteriors()\<close> raise \<open>AttributeError\<close>, the backing attribute not existing yet;
  \<open>posteriors()\<close> leaves the object as it was.
\<close>

theorem results_before_run:
  assumes "DNest4NestedSampling_init sps ll pop n_levels backend = Inr self"
  shows "log_evidence self = Inr None \<and> information self = Inr None \<and>
         evidence self = Inl AttributeError \<and> evidence_error self = Inl AttributeError \<and>
         log_evidence_error self = Inl AttributeError \<and>
         posteriors np_cbrt histogram self = (Inl AttributeError, self)"
  using init_attributes [OF assms]
  by (simp add: log_evidence_def information_def evidence_def evidence_error_def
        log_evidence_error_def posteriors_def)

theorem results_before_run_witness:
  "log_evidence example_sampler = Inr None \<and> information example_sampler = Inr None \<and>
   evidence example_sampler = Inl AttributeError \<and>
   evidence_error example_sampler = Inl AttributeError \<and>
   log_evidence_error example_sampler = Inl AttributeError \<and>
   posteriors (root 3) (\<lambda>col n. Inl ValueError) example_sampler
     = (Inl AttributeError, example_sampler)"
  using results_before_run [OF example_sampler_init] by simp

theorem unready_log_evidence_counterexample:
  "DNest4NestedSampling_init [example_parameter] (\<lambda>c. Finite 0) (Some 4) 20 ''memory''
     = Inr example_sampler \<and>
   log_evidence example_sampler = Inr None \<and> information example_sampler = Inr None"
  by (simp add: example_sampler_def DNest4NestedSampling_init_def example_parameter_def
        log_evidence_def information_def)

text \<open>
  C9: an assignment to any of the five read-only properties \<open>evidence\<close>,
  \<open>evidence_error\<close>, \<open>log_evidence\<close>, \<open>log_evidence_error\<close> and \<open>information\<close>
  emits the warning that the property is not settable and leaves the object as it
  was, so the value read back afterwards is the one stored before.
\<close>

theorem setters_warn_and_keep:
  "evidence_setter self v1 = ([''evidence is not settable''], self) \<and>
   evidence_error_setter self v2 = ([''evidence_error is not settable''], self) \<and>
   log_evidence_setter self v3 = ([''log_evidence is not settable''], self) \<and>
   log_evidence_error_setter self v4 = ([''log_evidence_error is not settable''], self) \<and>
   information_setter self v5 = ([''information is not settable''], self) \<and>
   evidence (snd (evidence_setter self v1)) = evidence self \<and>
   evidence_error (snd (evidence_error_setter self v2)) = evidence_error self \<and>
   log_evidence (snd (log_evidence_setter self v3)) = log_evidence self \<and>
   log_evidence_error (snd (log_evidence_error_setter self v4)) = log_evidence_error self \<and>
   information (snd (information_setter self v5)) = information self"
  by (simp add: evidence_setter_def evidence_error_setter_def log_evidence_setter_def
        log_evidence_error_setter_def information_setter_def)

theorem setters_warn_and_keep_witness:
  "fst (evidence_setter (snd (run (Inr example_run) example_sampler)) (5::real))
     = [''evidence is not settable''] \<and>
   evidence (snd (evidence_setter (snd (run (Inr example_run) example_sampler)) (5::real)))
     = Inr (exp (- 3)) \<and>
   log_evidence (snd (log_evidence_setter (snd (run (Inr example_run) example_sampler)) (5::real)))
     = Inr (Some (- 3))"
  using setters_warn_and_keep
    [of "snd (run (Inr example_run) example_sampler)" "5::real" "5::real" "5::real" "5::real" "5::real"]
  by (simp add: example_run_returns evidence_def log_evidence_def)

section \<open>Properties of \<open>posteriors\<close>\<close>

lemma py_int_between:
  assumes "real k \<le> x" and "x < real k + 1"
  shows "py_int x = int k"
proof -
  have "0 \<le> x"
    using assms(1) by (rule order_trans [rotated]) simp
  moreover have "\<lfloor>x\<rfloor> = int k"
    by (rule floor_unique) (use assms in simp_all)
  ultimately show ?thesis
    by (simp add: py_int_def)
qed




lemma nbins_of_below_cube:
  assumes "real (length samples) = real k ^ 3" and "1 \<le> k"
    and "real k - 1 \<le> np_cbrt (real (length samples))"
    and "np_cbrt (real (length samples)) < real k"
  shows "nbins_of np_cbrt samples = 2 * (int k - 1)"
proof -
  have "py_int (np_cbrt (real (length samples))) = int (k - 1)"
    by (rule py_int_between) (use assms(2,3,4) in \<open>simp_all add: of_nat_diff\<close>)
  then show ?thesis
    using assms(2) by (simp add: nbins_of_def of_nat_diff)
qed







section \<open>Properties of the model selector\<close>

subsection \<open>The range of \<open>np.exp\<close>\<close>

lemma float64_of_real_one: "float64_of_real 1 = Finite 1"
  by (simp add: float64_of_real_def)

lemma exp_1024_ln2: "exp (1024 * ln (2::real)) = 2 ^ 1024"
proof -
  have "exp (of_nat 1024 * ln (2::real)) = exp (ln 2) ^ 1024"
    by (rule exp_of_nat_mult)
  then show ?thesis
    by simp
qed

lemma exp_below_overflow:
  assumes "x < 1024 * ln (2::real)"
  shows "exp x < 2 ^ 1024"
proof -
  have "exp x < exp (1024 * ln 2)"
    using assms by (simp only: exp_less_cancel_iff)
  then show ?thesis
    by (simp only: exp_1024_ln2)
qed

lemma exp_at_overflow:
  assumes "1024 * ln (2::real) \<le> x"
  shows "2 ^ 1024 \<le> exp x"
proof -
  have "exp (1024 * ln 2) \<le> exp x"
    using assms by (simp only: exp_le_cancel_iff)
  then show ?thesis
    by (simp only: exp_1024_ln2)
qed

lemma np_exp_in_range:
  assumes "\<bar>x\<bar> < 1024 * ln 2"
  shows "np_exp x = Finite (exp x)"
proof -
  have up: "exp x < 2 ^ 1024"
    using assms by (intro exp_below_overflow) linarith
  have "exp (- x) < 2 ^ 1024"
    using assms by (intro exp_below_overflow) linarith
  then have "1 / 2 ^ 1024 < exp x"
    by (simp add: exp_minus field_simps)
  moreover have "(1::real) / 2 ^ 1075 \<le> 1 / 2 ^ 1024"
    by (simp add: field_simps)
  ultimately have low: "1 / 2 ^ 1075 < exp x"
    by (rule order_le_less_trans [rotated])
  have pos: "0 < exp x"
    by simp
  show ?thesis
    unfolding np_exp_def float64_of_real_def
    using up low pos by (simp only: abs_of_pos not_le if_False) auto
qed

lemma np_exp_overflows:
  assumes "1024 * ln 2 \<le> x"
  shows "np_exp x = PosInf"
    and "float64_mult (np_exp x) (np_exp (- x)) \<noteq> Finite 1"
proof -
  have "2 ^ 1024 \<le> exp x"
    using assms by (rule exp_at_overflow)
  then show inf: "np_exp x = PosInf"
    by (simp only: np_exp_def float64_of_real_def if_True)
  have "0 < 1024 * ln (2::real)"
    by simp
  with assms have "0 < x"
    by linarith
  then have "exp (- x) < 1"
    by simp
  moreover have "(1::real) \<le> 2 ^ 1024"
    by simp
  ultimately have "\<not> 2 ^ 1024 \<le> exp (- x)"
    by linarith
  moreover have "\<not> exp (- x) \<le> - (2 ^ 1024)"
    using exp_gt_zero [of "- x"] by (simp add: not_le less_trans [of _ 0])
  ultimately have "np_exp (- x) = Finite 0 \<or> np_exp (- x) = Finite (exp (- x))"
    by (simp only: np_exp_def float64_of_real_def if_False) simp
  then show "float64_mult (np_exp x) (np_exp (- x)) \<noteq> Finite 1"
    by (auto simp: inf)
qed

lemma ln_2_ge_half: "1 / 2 < ln (2::real)"
proof -
  have "exp (1 / 2 :: real) \<le> 1 + 1 / 2 + (1 / 2)\<^sup>2"
    by (rule exp_bound) simp_all
  also have "\<dots> < 2"
    by (simp add: power2_eq_square)
  finally have "exp (1 / 2 :: real) < exp (ln 2)"
    by simp
  then show ?thesis
    by (simp only: exp_less_cancel_iff)
qed

lemma small_gap_in_range:
  assumes "\<bar>x\<bar> \<le> 512"
  shows "\<bar>x\<bar> < 1024 * ln (2::real)"
  using assms ln_2_ge_half by linarith

lemma exp_800_huge: "(2::real) ^ 1075 \<le> exp 800"
proof -
  have b: "(47::real) / 43 \<le> exp (4 / 43)"
    using exp_ge_add_one_self [of "4 / 43 :: real"] by simp
  have "(2::real) \<le> (47 / 43) ^ 8"
    by (simp add: power_divide)
  also have "\<dots> \<le> exp (4 / 43) ^ 8"
    using b by (rule power_mono) simp
  also have "\<dots> = exp (32 / 43)"
    using exp_of_nat_mult [of 8 "4 / 43 :: real"] by simp
  finally have "(2::real) ^ 1075 \<le> exp (32 / 43) ^ 1075"
    by (rule power_mono) simp
  also have "\<dots> = exp 800"
    using exp_of_nat_mult [of 1075 "32 / 43 :: real"] by simp
  finally show ?thesis .
qed

lemma np_exp_800: "np_exp 800 = PosInf"
proof -
  have "(2::real) ^ 1024 \<le> 2 ^ 1075"
    by (rule power_increasing) simp_all
  with exp_800_huge have "(2::real) ^ 1024 \<le> exp 800"
    by (rule order_trans [rotated])
  then show ?thesis
    by (simp only: np_exp_def float64_of_real_def if_True)
qed

lemma np_exp_minus_800: "np_exp (- 800) = Finite 0"
proof -
  have e: "exp (- 800 :: real) = 1 / exp 800"
    by (simp add: exp_minus field_simps)
  have "1 / exp (800::real) \<le> 1 / 2 ^ 1075"
    using exp_800_huge by (intro divide_left_mono) simp_all
  then have small: "exp (- 800 :: real) \<le> 1 / 2 ^ 1075"
    by (simp only: e)
  have "(1::real) / 2 ^ 1075 < 2 ^ 1024"
    by (simp add: field_simps)
  with small have n1: "\<not> 2 ^ 1024 \<le> exp (- 800 :: real)"
    by linarith
  have "- (2 ^ 1024) < (0::real)"
    by simp
  with exp_gt_zero [of "- 800 :: real"] have n2: "\<not> exp (- 800 :: real) \<le> - (2 ^ 1024)"
    by linarith
  have a: "\<bar>exp (- 800 :: real)\<bar> \<le> 1 / 2 ^ 1075"
    using small by (simp only: abs_of_pos exp_gt_zero)
  show ?thesis
    unfolding np_exp_def float64_of_real_def
    by (simp only: n1 n2 a if_True if_False)
qed

subsection \<open>The Bayes factor loops\<close>

lemma array_set_Inr:
  assumes "array_set m r c v = Inr m'"
  shows "r < length m" and "c < length (m ! r)" and "length m' = length m"
    and "\<And>r'. r' < length m \<Longrightarrow> length (m' ! r') = length (m ! r')"
    and "\<And>r' c'. r' < length m \<Longrightarrow> c' < length (m ! r') \<Longrightarrow>
           m' ! r' ! c' = (if r' = r \<and> c' = c then v else m ! r' ! c')"
  using assms by (auto simp: array_set_def nth_list_update split: if_splits)

lemma py_sub_Inr:
  assumes "py_sub x y = Inr d"
  shows "\<exists>a b. x = Some a \<and> y = Some b \<and> d = a - b"
  using assms by (cases x; cases y) auto

lemma bayes_inner_result:
  assumes "bayes_inner li i j rest m = Inr m'"
  shows "length m' = length m \<and>
     (\<forall>r<length m. length (m' ! r) = length (m ! r)) \<and>
     (\<forall>r. j \<le> r \<and> r < j + length rest \<and> r \<noteq> i \<longrightarrow>
          r < length m \<and> i < length (m ! r) \<and>
          (\<exists>a b. li = Some a \<and> ns_log_evidence (rest ! (r - j)) = Some b \<and>
                 m' ! r ! i = np_exp (a - b))) \<and>
     (\<forall>r c. r < length m \<and> c < length (m ! r) \<and>
            \<not> (c = i \<and> r \<noteq> i \<and> j \<le> r \<and> r < j + length rest) \<longrightarrow>
            m' ! r ! c = m ! r ! c)"
  using assms
proof (induction rest arbitrary: j m)
  case Nil
  then show ?case by auto
next
  case (Cons nsj rest)
  show ?case
  proof (cases "i = j")
    case True
    with Cons.prems have rec: "bayes_inner li i (Suc j) rest m = Inr m'"
      by (simp add: log_evidence_def)
    note ih = Cons.IH [OF rec]
    have shift: "(nsj # rest) ! (r - j) = rest ! (r - Suc j)" if "Suc j \<le> r" for r
      using that by (simp add: Suc_diff_le)
    show ?thesis
      using ih True shift
      by (auto simp: less_Suc_eq_le Suc_le_eq)
  next
    case False
    with Cons.prems obtain d m1 where
      sub: "py_sub li (ns_log_evidence nsj) = Inr d"
      and set: "array_set m j i (np_exp d) = Inr m1"
      and rec: "bayes_inner li i (Suc j) rest m1 = Inr m'"
      by (auto simp: log_evidence_def Let_def split: sum.splits)
    from py_sub_Inr [OF sub] obtain a b where
      ab: "li = Some a" "ns_log_evidence nsj = Some b" "d = a - b"
      by blast
    note ih = Cons.IH [OF rec]
    note as = array_set_Inr [OF set]
    have len: "length m' = length m"
      using ih as(3) by simp
    have rows: "\<forall>r<length m. length (m' ! r) = length (m ! r)"
      using ih as(3,4) by simp
    have keep: "m' ! r ! c = m1 ! r ! c"
      if "r < length m" "c < length (m ! r)"
         "\<not> (c = i \<and> r \<noteq> i \<and> Suc j \<le> r \<and> r < Suc j + length rest)" for r c
      using ih that as(3,4) by simp
    have written: "r < length m \<and> i < length (m ! r) \<and>
          (\<exists>a b. li = Some a \<and> ns_log_evidence ((nsj # rest) ! (r - j)) = Some b \<and>
                 m' ! r ! i = np_exp (a - b))"
      if r: "j \<le> r" "r < j + length (nsj # rest)" "r \<noteq> i" for r
    proof (cases "r = j")
      case True
      have "m' ! j ! i = m1 ! j ! i"
        using keep [of j i] as(1,2) by simp
      also have "\<dots> = np_exp d"
        using as(5) [of j i] as(1,2) by simp
      finally show ?thesis
        using True as(1,2) ab by simp
    next
      case False
      with r have r': "Suc j \<le> r" "r < Suc j + length rest"
        by simp_all
      have "(nsj # rest) ! (r - j) = rest ! (r - Suc j)"
        using r'(1) by (simp add: Suc_diff_le)
      moreover from ih r' r(3) have "r < length m1 \<and> i < length (m1 ! r) \<and>
          (\<exists>a b. li = Some a \<and> ns_log_evidence (rest ! (r - Suc j)) = Some b \<and>
                 m' ! r ! i = np_exp (a - b))"
        by blast
      ultimately show ?thesis
        using as(3,4) by auto
    qed
    have untouched: "m' ! r ! c = m ! r ! c"
      if "r < length m" "c < length (m ! r)"
         "\<not> (c = i \<and> r \<noteq> i \<and> j \<le> r \<and> r < j + length (nsj # rest))" for r c
    proof -
      have "m' ! r ! c = m1 ! r ! c"
        using that by (intro keep) auto
      also have "\<dots> = m ! r ! c"
        using as(5) [of r c] that \<open>i \<noteq> j\<close> by auto
      finally show ?thesis .
    qed
    show ?thesis
      using len rows written untouched by blast
  qed
qed

lemma bayes_outer_result:
  assumes "bayes_outer samplers i rest m = Inr m'"
  shows "length m' = length m \<and>
     (\<forall>r<length m. length (m' ! r) = length (m ! r)) \<and>
     (\<forall>r c. i \<le> c \<and> c < i + length rest \<and> r < length samplers \<and> r \<noteq> c \<longrightarrow>
          r < length m \<and> c < length (m ! r) \<and>
          (\<exists>a b. ns_log_evidence (rest ! (c - i)) = Some a \<and>
                 ns_log_evidence (samplers ! r) = Some b \<and>
                 m' ! r ! c = np_exp (a - b))) \<and>
     (\<forall>r c. r < length m \<and> c < length (m ! r) \<and>
            \<not> (i \<le> c \<and> c < i + length rest \<and> r < length samplers \<and> r \<noteq> c) \<longrightarrow>
            m' ! r ! c = m ! r ! c)"
  using assms
proof (induction rest arbitrary: i m)
  case Nil
  then show ?case by auto
next
  case (Cons nsi rest)
  from Cons.prems obtain m1 where
    inner: "bayes_inner (ns_log_evidence nsi) i 0 samplers m = Inr m1"
    and rec: "bayes_outer samplers (Suc i) rest m1 = Inr m'"
    by (auto simp: log_evidence_def split: sum.splits)
  note inn = bayes_inner_result [OF inner]
  note ih = Cons.IH [OF rec]
  have len1: "length m1 = length m"
    using inn by simp
  have rows1: "length (m1 ! r) = length (m ! r)" if "r < length m" for r
    using inn that by simp
  have len: "length m' = length m"
    using ih len1 by simp
  have rows: "\<forall>r<length m. length (m' ! r) = length (m ! r)"
    using ih len1 rows1 by simp
  have keep: "m' ! r ! c = m1 ! r ! c"
    if "r < length m" "c < length (m ! r)"
       "\<not> (Suc i \<le> c \<and> c < Suc i + length rest \<and> r < length samplers \<and> r \<noteq> c)" for r c
    using ih that len1 rows1 by simp
  have column_i: "r < length m \<and> i < length (m ! r) \<and>
      (\<exists>a b. ns_log_evidence nsi = Some a \<and> ns_log_evidence (samplers ! r) = Some b \<and>
             m1 ! r ! i = np_exp (a - b))"
    if "r < length samplers" "r \<noteq> i" for r
    using inn that by simp
  have written: "r < length m \<and> c < length (m ! r) \<and>
      (\<exists>a b. ns_log_evidence ((nsi # rest) ! (c - i)) = Some a \<and>
             ns_log_evidence (samplers ! r) = Some b \<and> m' ! r ! c = np_exp (a - b))"
    if rc: "i \<le> c" "c < i + length (nsi # rest)" "r < length samplers" "r \<noteq> c" for r c
  proof (cases "c = i")
    case True
    from column_i [of r] rc True obtain a b where
      1: "r < length m" "i < length (m ! r)" "ns_log_evidence nsi = Some a"
         "ns_log_evidence (samplers ! r) = Some b" "m1 ! r ! i = np_exp (a - b)"
      by blast
    have "m' ! r ! i = m1 ! r ! i"
      using keep [of r i] 1 by simp
    with 1 True show ?thesis
      by simp
  next
    case False
    with rc have c': "Suc i \<le> c" "c < Suc i + length rest"
      by simp_all
    have "(nsi # rest) ! (c - i) = rest ! (c - Suc i)"
      using c'(1) by (simp add: Suc_diff_le)
    moreover from ih c' rc(3,4) have "r < length m1 \<and> c < length (m1 ! r) \<and>
        (\<exists>a b. ns_log_evidence (rest ! (c - Suc i)) = Some a \<and>
               ns_log_evidence (samplers ! r) = Some b \<and> m' ! r ! c = np_exp (a - b))"
      by blast
    ultimately show ?thesis
      using len1 rows1 by auto
  qed
  have untouched: "m' ! r ! c = m ! r ! c"
    if "r < length m" "c < length (m ! r)"
       "\<not> (i \<le> c \<and> c < i + length (nsi # rest) \<and> r < length samplers \<and> r \<noteq> c)" for r c
  proof -
    have "m' ! r ! c = m1 ! r ! c"
      using that by (intro keep) auto
    also have "\<dots> = m ! r ! c"
      using inn that by auto
    finally show ?thesis .
  qed
  show ?case
    using len rows written untouched by blast
qed

lemma bayes_factors_entries:
  assumes "bayes_factors self = Inr frame"
    and "r < number_of_models self" and "c < number_of_models self"
  shows "\<exists>samplers. nested_samplers self = Some samplers \<and>
     (if r < length samplers \<and> c < length samplers \<and> r \<noteq> c
      then \<exists>a b. ns_log_evidence (samplers ! c) = Some a \<and>
                  ns_log_evidence (samplers ! r) = Some b \<and>
                  bf_values frame ! r ! c = np_exp (a - b)
      else bf_values frame ! r ! c = Finite 1)"
proof -
  let ?n = "number_of_models self"
  let ?ones = "replicate ?n (replicate ?n (Finite 1))"
  from assms(1) obtain samplers where
    ns: "nested_samplers self = Some samplers"
    and outer: "bayes_outer samplers 0 samplers ?ones = Inr (bf_values frame)"
    by (auto simp: bayes_factors_def Let_def split: option.splits sum.splits)
  note res = bayes_outer_result [OF outer]
  have dims: "r < length ?ones" "c < length (?ones ! r)"
    using assms(2,3) by simp_all
  have one: "?ones ! r ! c = Finite 1"
    using assms(2,3) by simp
  show ?thesis
  proof (cases "r < length samplers \<and> c < length samplers \<and> r \<noteq> c")
    case True
    with res have "\<exists>a b. ns_log_evidence (samplers ! (c - 0)) = Some a \<and>
                  ns_log_evidence (samplers ! r) = Some b \<and>
                  bf_values frame ! r ! c = np_exp (a - b)"
      by (metis (no_types, lifting) add_0 le0)
    with True ns show ?thesis
      by simp
  next
    case False
    with res dims have "bf_values frame ! r ! c = ?ones ! r ! c"
      by (metis (no_types, lifting) add_0)
    with False ns one show ?thesis
      by auto
  qed
qed

subsection \<open>The example batch\<close>

lemma example_run2_returns:
  "run (Inr example_run2) self =
    (Inr (Some (- 5), sqrt (8 / real_of_int (population_size self))),
     self\<lparr>ns_log_evidence := Some (- 5),
          ns_information := Some 8,
          ns_logZ_err := Bound (sqrt (8 / real_of_int (population_size self))),
          ns_evidence_error := Bound (exp (sqrt (8 / real_of_int (population_size self)))),
          ns_evidence := Bound (exp (- 5)),
          ns_samples := Bound [[1/2], [1], [3/2], [1]],
          ns_last_live_sample := Bound [[1], [3/2]],
          ns_last_live_sample_weights := Bound [1/4, 3/4],
          ns_last_live_sample_info := Bound [- 1, - 1/2]\<rparr>)"
  using run_returns [of example_run2 "[[1], [3/2]]" "[1/4, 3/4]" "[- 1, - 1/2]" self]
  by (simp add: example_run2_def example_run_def)

lemma example_finished_results:
  "ns_log_evidence example_finished = Some (- 3)"
  "ns_logZ_err example_finished = Bound (sqrt 2)"
  "ns_log_evidence example_finished2 = Some (- 5)"
  "ns_logZ_err example_finished2 = Bound (sqrt 2)"
  by (simp_all add: example_finished_def example_finished2_def example_run_returns
        example_run2_returns example_sampler_population)

lemma example_runs:
  "run (example_external 0) example_sampler = (Inr (Some (- 3), sqrt 2), example_finished)"
  "run (example_external (Suc 0)) example_sampler = (Inr (Some (- 5), sqrt 2), example_finished2)"
  by (simp_all add: example_external_def example_finished_def example_finished2_def
        example_run_returns example_run2_returns example_sampler_population)

lemma example_run_samplers:
  "run_samplers example_external 0 [example_sampler, example_sampler]
     = (None, [example_finished, example_finished2])"
  by (simp add: example_runs)

lemma str_nat_digit: "n < 10 \<Longrightarrow> str_nat n = [''0123456789'' ! n]"
  by (simp add: str_nat.simps)

lemma example_model_names:
  "model_name 0 = ''model_0''" "model_name (Suc 0) = ''model_1''"
  by (simp_all add: model_name_def str_nat_digit)

lemma run_nested_sampling_returns:
  assumes "nested_samplers self = Some samplers"
    and "run_samplers ext 0 samplers = (None, samplers')"
    and "build_frame 0 samplers' = Inr frame" and "frame \<noteq> []"
  shows "run_nested_sampling ext self =
     (Inr (Some (reset_index (sort_values (zip [0..<length frame] frame)))), [],
      self\<lparr>nested_samplers := Some samplers',
           selection := Some (sort_values (zip [0..<length frame] frame))\<rparr>)"
  using assms by (simp add: run_nested_sampling_def Let_def)

lemma example_frame:
  "build_frame 0 [example_finished, example_finished2] =
     Inr [\<lparr>row_model = ''model_0'', row_log_evidence = Some (- 3),
            row_log_evidence_error = sqrt 2\<rparr>,
          \<lparr>row_model = ''model_1'', row_log_evidence = Some (- 5),
            row_log_evidence_error = sqrt 2\<rparr>]"
  by (simp add: log_evidence_def log_evidence_error_def example_finished_results
        example_model_names)

lemma example_selection:
  "run_nested_sampling example_external example_selector =
     (Inr (Some [(0, \<lparr>row_model = ''model_0'', row_log_evidence = Some (- 3),
                        row_log_evidence_error = sqrt 2\<rparr>),
                 (1, \<lparr>row_model = ''model_1'', row_log_evidence = Some (- 5),
                        row_log_evidence_error = sqrt 2\<rparr>)]),
      [],
      example_selector
        \<lparr>nested_samplers := Some [example_finished, example_finished2],
         selection :=
           Some [(0, \<lparr>row_model = ''model_0'', row_log_evidence = Some (- 3),
                        row_log_evidence_error = sqrt 2\<rparr>),
                 (1, \<lparr>row_model = ''model_1'', row_log_evidence = Some (- 5),
                        row_log_evidence_error = sqrt 2\<rparr>)]\<rparr>)"
proof -
  have ns: "nested_samplers example_selector = Some [example_sampler, example_sampler]"
    by (simp add: example_selector_def)
  show ?thesis
    by (simp add: run_nested_sampling_returns [OF ns example_run_samplers example_frame]
          sort_values_def reset_index_def upt_rec)
qed

lemma example_selected_fields:
  "nested_samplers example_selected = Some [example_finished, example_finished2]"
  "number_of_models example_selected = 2"
  by (simp_all add: example_selected_def example_selection number_of_models_def)
     (simp add: example_selector_def)

lemma example_bayes_factors:
  "bayes_factors example_selected =
     Inr \<lparr>bf_index = [''model_0'', ''model_1''], bf_columns = [''model_0'', ''model_1''],
          bf_values = [[Finite 1, np_exp (- 2)], [np_exp 2, Finite 1]]\<rparr>"
  by (simp add: bayes_factors_def example_selected_fields log_evidence_def
        example_finished_results array_set_def example_model_names Let_def upt_rec
        numeral_2_eq_2)

lemma example_run3_returns:
  "run (Inr example_run3) self =
    (Inr (Some (- 803), sqrt (8 / real_of_int (population_size self))),
     self\<lparr>ns_log_evidence := Some (- 803),
          ns_information := Some 8,
          ns_logZ_err := Bound (sqrt (8 / real_of_int (population_size self))),
          ns_evidence_error := Bound (exp (sqrt (8 / real_of_int (population_size self)))),
          ns_evidence := Bound (exp (- 803)),
          ns_samples := Bound [[1/2], [1], [3/2], [1]],
          ns_last_live_sample := Bound [[1], [3/2]],
          ns_last_live_sample_weights := Bound [1/4, 3/4],
          ns_last_live_sample_info := Bound [- 1, - 1/2]\<rparr>)"
  using run_returns [of example_run3 "[[1], [3/2]]" "[1/4, 3/4]" "[- 1, - 1/2]" self]
  by (simp add: example_run3_def example_run_def)

lemma example_far_apart_fields:
  "ns_log_evidence example_finished3 = Some (- 803)"
  "nested_samplers example_far_apart = Some [example_finished, example_finished3]"
  "number_of_models example_far_apart = 2"
  by (simp_all add: example_finished3_def example_run3_returns example_far_apart_def
        number_of_models_def example_selector_def)

lemma example_far_apart_bayes_factors:
  "bayes_factors example_far_apart =
     Inr \<lparr>bf_index = [''model_0'', ''model_1''], bf_columns = [''model_0'', ''model_1''],
          bf_values = [[Finite 1, Finite 0], [PosInf, Finite 1]]\<rparr>"
  by (simp add: bayes_factors_def example_far_apart_fields log_evidence_def
        example_finished_results array_set_def example_model_names Let_def upt_rec
        numeral_2_eq_2 np_exp_800 np_exp_minus_800)

subsection \<open>The Bayes factor matrix\<close>

lemma bayes_factors_value:
  assumes "bayes_factors self = Inr frame"
    and "nested_samplers self = Some samplers"
    and "i < length samplers" and "j < length samplers"
    and "i < number_of_models self" and "j < number_of_models self"
    and "log_evidence (samplers ! i) = Inr (Some logZ_i)"
    and "log_evidence (samplers ! j) = Inr (Some logZ_j)"
  shows "bf_values frame ! i ! j = np_exp (logZ_j - logZ_i)"
proof -
  from bayes_factors_entries [OF assms(1) assms(5) assms(6)] assms(2,3,4)
  have e: "if i \<noteq> j
         then \<exists>a b. ns_log_evidence (samplers ! j) = Some a \<and>
                     ns_log_evidence (samplers ! i) = Some b \<and>
                     bf_values frame ! i ! j = np_exp (a - b)
         else bf_values frame ! i ! j = Finite 1"
    by auto
  have z: "ns_log_evidence (samplers ! i) = Some logZ_i"
    "ns_log_evidence (samplers ! j) = Some logZ_j"
    using assms(7,8) by (simp_all add: log_evidence_def)
  show ?thesis
  proof (cases "i = j")
    case True
    with e z show ?thesis
      by (simp add: np_exp_def float64_of_real_one)
  next
    case False
    with e z show ?thesis by auto
  qed
qed

text \<open>
  C8 (as the code has it): for models \<open>i\<close> and \<open>j\<close> with completed runs whose
  log-evidences differ by less than \<open>1024 * ln 2\<close> (about 709.78, where \<open>np.exp\<close>
  overflows), the entries of the matrix returned by \<open>bayes_factors()\<close> are reciprocal,
  \<open>BF[i,j] * BF[j,i] = 1\<close>, and the diagonal entry is 1. (Within the range of the
  format the floats are idealised as reals.)
\<close>

theorem bayes_factors_reciprocal:
  assumes "bayes_factors self = Inr frame"
    and "nested_samplers self = Some samplers"
    and "i < length samplers" and "j < length samplers"
    and "i < number_of_models self" and "j < number_of_models self"
    and "log_evidence (samplers ! i) = Inr (Some logZ_i)"
    and "log_evidence (samplers ! j) = Inr (Some logZ_j)"
    and "\<bar>logZ_i - logZ_j\<bar> < 1024 * ln 2"
  shows "float64_mult (bf_values frame ! i ! j) (bf_values frame ! j ! i) = Finite 1 \<and>
         bf_values frame ! i ! i = Finite 1"
proof -
  have "\<bar>logZ_j - logZ_i\<bar> < 1024 * ln 2"
    using assms(9) by (simp add: abs_minus_commute)
  then have ij: "bf_values frame ! i ! j = Finite (exp (logZ_j - logZ_i))"
    using bayes_factors_value [OF assms(1,2,3,4,5,6,7,8)] by (simp add: np_exp_in_range)
  have ji: "bf_values frame ! j ! i = Finite (exp (logZ_i - logZ_j))"
    using bayes_factors_value [OF assms(1,2,4,3,6,5,8,7)] assms(9)
    by (simp add: np_exp_in_range)
  have "exp (logZ_j - logZ_i) * exp (logZ_i - logZ_j) = 1"
    by (simp add: mult_exp_exp)
  then have "float64_mult (bf_values frame ! i ! j) (bf_values frame ! j ! i) = Finite 1"
    by (simp add: ij ji float64_of_real_one)
  moreover have "bf_values frame ! i ! i = Finite 1"
    using bayes_factors_value [OF assms(1,2,3,3,5,5,7,7)]
    by (simp add: np_exp_def float64_of_real_one)
  ultimately show ?thesis
    by simp
qed

theorem bayes_factors_reciprocal_witness:
  "\<bar>- 3 - (- 5)\<bar> < 1024 * ln (2::real) \<and>
   float64_mult ([[Finite 1, np_exp (- 2)], [np_exp 2, Finite 1]] ! 0 ! 1)
     ([[Finite 1, np_exp (- 2)], [np_exp 2, Finite 1]] ! 1 ! 0) = Finite 1 \<and>
   [[Finite 1, np_exp (- 2)], [np_exp 2, Finite 1]] ! 0 ! 0 = Finite 1"
proof -
  have z: "log_evidence ([example_finished, example_finished2] ! 0) = Inr (Some (- 3))"
    "log_evidence ([example_finished, example_finished2] ! 1) = Inr (Some (- 5))"
    by (simp_all add: log_evidence_def example_finished_results)
  have g: "\<bar>- 3 - (- 5)\<bar> < 1024 * ln (2::real)"
    by (rule small_gap_in_range) simp
  from bayes_factors_reciprocal
    [OF example_bayes_factors example_selected_fields(1) _ _ _ _ z g]
  have "float64_mult ([[Finite 1, np_exp (- 2)], [np_exp 2, Finite 1]] ! 0 ! 1)
     ([[Finite 1, np_exp (- 2)], [np_exp 2, Finite 1]] ! 1 ! 0) = Finite 1 \<and>
   [[Finite 1, np_exp (- 2)], [np_exp 2, Finite 1]] ! 0 ! 0 = Finite 1"
    by (simp add: example_selected_fields)
  with g show ?thesis
    by simp
qed

theorem bayes_factors_overflow_counterexample:
  "log_evidence example_finished = Inr (Some (- 3)) \<and>
   log_evidence example_finished3 = Inr (Some (- 803)) \<and>
   nested_samplers example_far_apart = Some [example_finished, example_finished3] \<and>
   (\<exists>frame. bayes_factors example_far_apart = Inr frame \<and>
      bf_values frame ! 0 ! 1 = Finite 0 \<and> bf_values frame ! 1 ! 0 = PosInf \<and>
      float64_mult (bf_values frame ! 0 ! 1) (bf_values frame ! 1 ! 0) = NaN \<and>
      float64_mult (bf_values frame ! 0 ! 1) (bf_values frame ! 1 ! 0) \<noteq> Finite 1)"
  by (simp add: log_evidence_def example_finished_results example_far_apart_fields
        example_far_apart_bayes_factors)

text \<open>
  C2 (as the code has it): for models \<open>i\<close> and \<open>j\<close> with completed runs, the entry in
  row \<open>i\<close> and column \<open>j\<close> of the matrix returned by \<open>bayes_factors()\<close> equals
  \<open>exp(logZ_j - logZ_i)\<close>, the evidence of the column's model over that of the row's
  model; rows and columns are labelled \<open>model_0\<close>, \<open>model_1\<close>, ... in order.
\<close>

theorem bayes_factors_entry:
  assumes "bayes_factors self = Inr frame"
    and "nested_samplers self = Some samplers"
    and "i < length samplers" and "j < length samplers"
    and "i < number_of_models self" and "j < number_of_models self"
    and "log_evidence (samplers ! i) = Inr (Some logZ_i)"
    and "log_evidence (samplers ! j) = Inr (Some logZ_j)"
  shows "bf_values frame ! i ! j = np_exp (logZ_j - logZ_i) \<and>
         bf_index frame ! i = model_name i \<and> bf_columns frame ! j = model_name j"
proof -
  have "bf_values frame ! i ! j = np_exp (logZ_j - logZ_i)"
    using assms by (rule bayes_factors_value)
  moreover have "bf_index frame ! i = model_name i" "bf_columns frame ! j = model_name j"
    using assms(1,5,6)
    by (auto simp: bayes_factors_def Let_def split: option.splits sum.splits)
  ultimately show ?thesis
    by simp
qed

theorem bayes_factors_entry_witness:
  "log_evidence example_finished = Inr (Some (- 3)) \<and>
   log_evidence example_finished2 = Inr (Some (- 5)) \<and>
   [[Finite 1, np_exp (- 2)], [np_exp 2, Finite 1]] ! 0 ! 1 = np_exp (- 5 - (- 3)) \<and>
   np_exp (- 5 - (- 3)) = Finite (exp (- 2)) \<and>
   [''model_0'', ''model_1''] ! 0 = model_name 0 \<and>
   [''model_0'', ''model_1''] ! 1 = model_name 1"
proof -
  have z: "log_evidence ([example_finished, example_finished2] ! 0) = Inr (Some (- 3))"
    "log_evidence ([example_finished, example_finished2] ! 1) = Inr (Some (- 5))"
    by (simp_all add: log_evidence_def example_finished_results)
  from bayes_factors_entry [OF example_bayes_factors example_selected_fields(1) _ _ _ _ z]
  have "[[Finite 1, np_exp (- 2)], [np_exp 2, Finite 1]] ! 0 ! 1 = np_exp (- 5 - (- 3)) \<and>
     [''model_0'', ''model_1''] ! 0 = model_name 0 \<and>
     [''model_0'', ''model_1''] ! 1 = model_name 1"
    by (simp add: example_selected_fields)
  moreover have "np_exp (- 5 - (- 3)) = Finite (exp (- 2))"
    using np_exp_in_range [OF small_gap_in_range, of "- 2"] by simp
  ultimately show ?thesis
    using z by simp
qed

theorem bayes_factors_entry_counterexample:
  "log_evidence example_finished = Inr (Some (- 3)) \<and>
   log_evidence example_finished2 = Inr (Some (- 5)) \<and>
   nested_samplers example_selected = Some [example_finished, example_finished2] \<and>
   (\<exists>frame. bayes_factors example_selected = Inr frame \<and>
      bf_values frame ! 0 ! 1 = Finite (exp (- 2)) \<and>
      np_exp (- 3 - (- 5)) = Finite (exp 2) \<and>
      bf_values frame ! 0 ! 1 \<noteq> np_exp (- 3 - (- 5)))"
proof -
  have "np_exp (- 2) = Finite (exp (- 2))" "np_exp 2 = Finite (exp 2)"
    using np_exp_in_range [OF small_gap_in_range, of "- 2"]
      np_exp_in_range [OF small_gap_in_range, of 2] by simp_all
  then show ?thesis
    by (simp add: log_evidence_def example_finished_results example_selected_fields
          example_bayes_factors)
qed

subsection \<open>A run that raises\<close>

lemma run_samplers_raises:
  assumes "k < length rest"
    and "\<forall>i<k. \<exists>r s. run (ext (j + i)) (rest ! i) = (Inr r, s)"
    and "run (ext (j + k)) (rest ! k) = (Inl e, sk)"
  shows "\<exists>rest'. run_samplers ext j rest = (Some e, rest') \<and>
           length rest' = length rest \<and>
           (\<forall>i. k < i \<and> i < length rest \<longrightarrow> rest' ! i = rest ! i)"
  using assms
proof (induction rest arbitrary: j k)
  case Nil
  then show ?case by simp
next
  case (Cons ns rest)
  show ?case
  proof (cases k)
    case 0
    with Cons.prems(3) have "run_samplers ext j (ns # rest) = (Some e, sk # rest)"
      by simp
    with 0 show ?thesis
      by auto
  next
    case (Suc k')
    from Cons.prems(2) Suc obtain r s where first: "run (ext j) ns = (Inr r, s)"
      by force
    have 1: "k' < length rest"
      using Cons.prems(1) Suc by simp
    have 2: "\<forall>i<k'. \<exists>r s. run (ext (Suc j + i)) (rest ! i) = (Inr r, s)"
    proof (intro allI impI)
      fix i assume "i < k'"
      then have "Suc i < k" using Suc by simp
      with Cons.prems(2) have "\<exists>r s. run (ext (j + Suc i)) ((ns # rest) ! Suc i) = (Inr r, s)"
        by blast
      then show "\<exists>r s. run (ext (Suc j + i)) (rest ! i) = (Inr r, s)"
        by simp
    qed
    have 3: "run (ext (Suc j + k')) (rest ! k') = (Inl e, sk)"
      using Cons.prems(3) Suc by simp
    from Cons.IH [OF 1 2 3] obtain rest' where
      ih: "run_samplers ext (Suc j) rest = (Some e, rest')" "length rest' = length rest"
          "\<forall>i. k' < i \<and> i < length rest \<longrightarrow> rest' ! i = rest ! i"
      by blast
    have "run_samplers ext j (ns # rest) = (Some e, s # rest')"
      using first ih(1) by simp
    moreover have "\<forall>i. k < i \<and> i < length (ns # rest) \<longrightarrow> (s # rest') ! i = (ns # rest) ! i"
    proof (intro allI impI)
      fix i assume i: "k < i \<and> i < length (ns # rest)"
      then obtain i' where "i = Suc i'" by (cases i) auto
      with i Suc ih(3) show "(s # rest') ! i = (ns # rest) ! i"
        by simp
    qed
    ultimately show ?thesis
      using ih(2) by simp
  qed
qed

text \<open>
  C4 (as the code has it): \<open>run_nested_sampling()\<close> has no exception handler. When the
  run of sampler \<open>k\<close> is the first to raise, the exception leaves the call: no table is
  returned, the stored selection is the one from before the call, and the samplers
  after \<open>k\<close> are as they were, their runs never started.
\<close>

theorem run_nested_sampling_raises:
  assumes "nested_samplers self = Some samplers"
    and "k < length samplers"
    and "\<forall>i<k. \<exists>r s. run (ext i) (samplers ! i) = (Inr r, s)"
    and "run (ext k) (samplers ! k) = (Inl e, sk)"
  shows "fst (run_nested_sampling ext self) = Inl e \<and>
         selection (snd (snd (run_nested_sampling ext self))) = selection self \<and>
         (\<exists>samplers'. nested_samplers (snd (snd (run_nested_sampling ext self))) = Some samplers' \<and>
            length samplers' = length samplers \<and>
            (\<forall>i. k < i \<and> i < length samplers \<longrightarrow> samplers' ! i = samplers ! i))"
proof -
  from run_samplers_raises [of k samplers ext 0 e sk] assms(2,3,4)
  obtain samplers' where
    rs: "run_samplers ext 0 samplers = (Some e, samplers')"
        "length samplers' = length samplers"
        "\<forall>i. k < i \<and> i < length samplers \<longrightarrow> samplers' ! i = samplers ! i"
    by auto
  have "run_nested_sampling ext self = (Inl e, [], self\<lparr>nested_samplers := Some samplers'\<rparr>)"
    using assms(1) rs(1) by (simp add: run_nested_sampling_def)
  with rs(2,3) show ?thesis
    by simp
qed

lemma example_failing_first:
  "run (example_failing 0) example_sampler
     = (Inl (ExternalError ''solver did not converge''), example_sampler)"
  by (simp add: example_failing_def run_def)

lemma example_failing_second:
  "run (example_failing (Suc 0)) example_sampler
     = (Inr (Some (- 5), sqrt 2), example_finished2)"
  by (simp add: example_failing_def example_finished2_def example_run2_returns
        example_sampler_population)

theorem run_nested_sampling_raises_witness:
  "fst (run_nested_sampling example_failing example_selector)
     = Inl (ExternalError ''solver did not converge'') \<and>
   selection (snd (snd (run_nested_sampling example_failing example_selector))) = None \<and>
   (\<exists>samplers'.
      nested_samplers (snd (snd (run_nested_sampling example_failing example_selector)))
        = Some samplers' \<and>
      length samplers' = 2 \<and> samplers' ! 1 = example_sampler)"
proof -
  have ns: "nested_samplers example_selector = Some [example_sampler, example_sampler]"
    by (simp add: example_selector_def)
  have r: "run (example_failing 0) ([example_sampler, example_sampler] ! 0)
     = (Inl (ExternalError ''solver did not converge''), example_sampler)"
    by (simp add: example_failing_first)
  from run_nested_sampling_raises
    [of example_selector "[example_sampler, example_sampler]" 0 example_failing
       "ExternalError ''solver did not converge''" example_sampler] ns r
  have "fst (run_nested_sampling example_failing example_selector)
       = Inl (ExternalError ''solver did not converge'') \<and>
     selection (snd (snd (run_nested_sampling example_failing example_selector)))
       = selection example_selector \<and>
     (\<exists>samplers'.
        nested_samplers (snd (snd (run_nested_sampling example_failing example_selector)))
          = Some samplers' \<and>
        length samplers' = length [example_sampler, example_sampler] \<and>
        (\<forall>i. 0 < i \<and> i < length [example_sampler, example_sampler] \<longrightarrow>
           samplers' ! i = [example_sampler, example_sampler] ! i))"
    by simp
  then show ?thesis
    by (auto simp: example_selector_def)
qed

theorem run_nested_sampling_abort_counterexample:
  "run (example_failing 0) example_sampler
     = (Inl (ExternalError ''solver did not converge''), example_sampler) \<and>
   run (example_failing (Suc 0)) example_sampler
     = (Inr (Some (- 5), sqrt 2), example_finished2) \<and>
   run_nested_sampling example_failing example_selector
     = (Inl (ExternalError ''solver did not converge''), [], example_selector) \<and>
   nested_samplers example_selector = Some [example_sampler, example_sampler] \<and>
   log_evidence example_sampler = Inr None"
proof -
  have "run_samplers example_failing 0 [example_sampler, example_sampler]
     = (Some (ExternalError ''solver did not converge''), [example_sampler, example_sampler])"
    by (simp add: example_failing_first)
  moreover have ns: "nested_samplers example_selector = Some [example_sampler, example_sampler]"
    by (simp add: example_selector_def)
  ultimately have "run_nested_sampling example_failing example_selector
     = (Inl (ExternalError ''solver did not converge''), [], example_selector)"
    by (simp add: run_nested_sampling_def)
  moreover have "log_evidence example_sampler = Inr None"
    by (simp add: log_evidence_def example_sampler_def DNest4NestedSampling_init_def
          example_parameter_def)
  ultimately show ?thesis
    using ns example_failing_first example_failing_second by simp
qed

end
